theory Spec2Isabelle
  imports Main "HOL-Library.Word"
begin

section \<open>Values, exceptions and the observable world\<close>

text \<open>
  The client facade of \<^verbatim>\<open>src/idb/client/grpc.py\<close>. Python exceptions are values of
  \<open>exn\<close>; a call that may raise returns \<open>exn + 'a\<close> with \<open>Inl\<close> for the exception.
  \<open>GRPCError\<close> carries its status code and its optional \<open>message\<close>; \<open>ProtocolError\<close> and
  \<open>StreamTerminatedError\<close> carry their \<open>args\<close>. \<open>IdbException\<close> carries the single
  argument it was built from and the exception it was raised \<open>from\<close>
  (\<open>None\<close> when it was raised on its own).
\<close>

datatype idb_args = Message "string option" | Fault_args "string list"

datatype exn =
    GRPCError int "string option"
  | ProtocolError "string list"
  | StreamTerminatedError "string list"
  | IdbException idb_args "exn option"
  | AttributeError string
  | KeyError string
  | OtherError string

fun is_IdbException :: "exn \<Rightarrow> bool" where
  "is_IdbException (IdbException a c) = True"
| "is_IdbException e = False"

type_synonym bytes = "8 word list"

datatype grpc_channel = Channel string int nat

datatype grpc_stub = CompanionServiceStub grpc_channel

datatype py_logger = Logger string

record companion_info =
  ci_udid :: "string option"
  ci_host :: string
  ci_port :: int
  ci_is_local :: bool

datatype Point = Point int int

datatype permission = PHOTOS | CAMERA | CONTACTS

datatype payload = File_path string | Data bytes

datatype request =
    ListAppsRequest
  | AccessibilityInfoRequest "Point option"
  | AddMediaRequest payload
  | ApproveRequest string "permission list"

text \<open>
  What reaches the transport, in order: a unary call on a stub, and on the upload stream
  its opening, each message sent, the end-of-input signal, each read of a reply and the
  close that leaving the \<^verbatim>\<open>async with\<close> block performs. An attempt is recorded
  whether or not the transport then raises.
\<close>

datatype net_event =
    Unary grpc_stub request
  | Stream_open grpc_stub
  | Stream_send request
  | Stream_end
  | Stream_recv
  | Stream_close

datatype log_entry =
    Call_boundary string
  | Info_using_companion py_logger companion_info
  | Info_exception py_logger exn

text \<open>
  The world outside the facade object: the log, the transport trace, the channels
  constructed so far (host and port of each, in order) and the calls made to the daemon
  spawner (the \<^verbatim>\<open>force_kill\<close> flag of each, in order).
\<close>

record world =
  logged :: "log_entry list"
  net :: "net_event list"
  dialed :: "(string \<times> int) list"
  spawner_calls :: "bool list"

record 'ps app_info =
  app_bundle_id :: string
  app_name :: string
  app_architectures :: "string list"
  app_install_type :: string
  app_process_state :: 'ps
  app_debuggable :: bool

text \<open>
  The transport is a collaborator: what it answers is a parameter. Each answer is a
  function of the trace up to and including the attempt it answers.
\<close>

record transport =
  list_apps_reply :: "net_event list \<Rightarrow> exn + int app_info list"
  accessibility_info_reply :: "net_event list \<Rightarrow> exn + string"
  fault :: "net_event list \<Rightarrow> exn option"

record 'f GrpcClient =
  port :: int
  host :: string
  logger :: py_logger
  force_kill_daemon :: bool
  target_udid :: "string option"
  daemon_channel :: "grpc_channel option"
  daemon_stub :: "grpc_stub option"
  installed :: "string \<rightharpoonup> 'f"
  channel :: "grpc_channel option"
  stub :: "grpc_stub option"
  companion_info :: "companion_info option"

record companion_client =
  cc_stub :: grpc_stub
  cc_is_local :: bool
  cc_udid :: "string option"
  cc_logger :: py_logger

section \<open>Calls, coroutines and awaiting\<close>

text \<open>
  A Python callable takes its arguments and the world and returns a value or raises.
  Calling an \<^verbatim>\<open>async def\<close> function runs none of its body: the call returns a
  coroutine object, and the body runs when the coroutine is awaited.
\<close>

type_synonym 'a io = "world \<Rightarrow> (exn + 'a) \<times> world"

datatype 'r coroutine = Coroutine "'r io"

fun await :: "'r coroutine \<Rightarrow> 'r io" where
  "await (Coroutine k) w = k w"

definition async_def :: "('a \<Rightarrow> 'r io) \<Rightarrow> 'a \<Rightarrow> 'r coroutine io" where
  "async_def body args w = (Inr (Coroutine (body args)), w)"

definition io_bind :: "'a io \<Rightarrow> ('a \<Rightarrow> 'b io) \<Rightarrow> 'b io" where
  "io_bind m k w = (case m w of (Inl e, w') \<Rightarrow> (Inl e, w') | (Inr v, w') \<Rightarrow> k v w')"

text \<open>What a caller that writes \<^verbatim>\<open>await f(args)\<close> observes.\<close>

definition call_await :: "('a \<Rightarrow> 'r coroutine io) \<Rightarrow> 'a \<Rightarrow> 'r io" where
  "call_await f args = io_bind (f args) await"

section \<open>The logging and error-translation wrapper\<close>

text \<open>
  \<^verbatim>\<open>func_wrapper\<close> of \<^verbatim>\<open>log_and_handle_exceptions\<close>: a plain \<^verbatim>\<open>def\<close> whose
  \<^verbatim>\<open>try\<close> block holds the call \<^verbatim>\<open>func(*args, **kwargs)\<close> and returns its value.
\<close>

definition func_wrapper :: "('a \<Rightarrow> 'v io) \<Rightarrow> 'a \<Rightarrow> 'v io" where
  "func_wrapper func args w =
     (case func args w of
        (Inl (GRPCError st m), w') \<Rightarrow> (Inl (IdbException (Message m) (Some (GRPCError st m))), w')
      | (Inl (ProtocolError a), w') \<Rightarrow> (Inl (IdbException (Fault_args a) (Some (ProtocolError a))), w')
      | (Inl (StreamTerminatedError a), w') \<Rightarrow>
          (Inl (IdbException (Fault_args a) (Some (StreamTerminatedError a))), w')
      | (r, w') \<Rightarrow> (r, w'))"

text \<open>
  Modelled from the spec: \<^verbatim>\<open>idb.common.logging.log_call\<close> is not among the sources.
  The spec has it log, before invocation, a call-boundary event carrying the operation
  name. The decorated callable is awaited by its callers, so the model is an
  \<^verbatim>\<open>async def\<close> that logs the event, calls the wrapped callable and awaits what it
  returned.
\<close>

definition log_call :: "string \<Rightarrow> ('a \<Rightarrow> 'r coroutine io) \<Rightarrow> 'a \<Rightarrow> 'r coroutine io" where
  "log_call nm func =
     async_def (\<lambda>args w. call_await func args (w\<lparr>logged := logged w @ [Call_boundary nm]\<rparr>))"

text \<open>The decorator; \<open>nm\<close> is \<^verbatim>\<open>func.__name__\<close>.\<close>

definition log_and_handle_exceptions ::
  "string \<Rightarrow> ('a \<Rightarrow> 'r coroutine io) \<Rightarrow> 'a \<Rightarrow> 'r coroutine io" where
  "log_and_handle_exceptions nm func = log_call nm (func_wrapper func)"

section \<open>The facade\<close>

text \<open>
  \<^verbatim>\<open>if self.target_udid\<close> tests the truth value of an optional string: \<^verbatim>\<open>None\<close>
  and the empty string are false.
\<close>

fun truthy :: "string option \<Rightarrow> bool" where
  "truthy None = False"
| "truthy (Some s) = (s \<noteq> [])"

definition metadata :: "'f GrpcClient \<Rightarrow> (string \<rightharpoonup> string)" where
  "metadata self =
     (if truthy (target_udid self)
      then (case target_udid self of Some u \<Rightarrow> [''udid'' \<mapsto> u] | None \<Rightarrow> Map.empty)
      else Map.empty)"

text \<open>
  \<^verbatim>\<open>Channel(host, port, loop=...)\<close>: the new channel is told apart from every
  earlier one by its position among the channels constructed.
\<close>

definition new_channel :: "string \<Rightarrow> int \<Rightarrow> world \<Rightarrow> grpc_channel \<times> world" where
  "new_channel h p w = (Channel h p (length (dialed w)), w\<lparr>dialed := dialed w @ [(h, p)]\<rparr>)"

text \<open>
  The loop \<^verbatim>\<open>for (call_name, f) in ...: setattr(self, call_name, f)\<close>: a later pair
  replaces an earlier one of the same name.
\<close>

fun install_calls :: "(string \<times> 'f) list \<Rightarrow> (string \<rightharpoonup> 'f) \<Rightarrow> (string \<rightharpoonup> 'f)" where
  "install_calls [] d = d"
| "install_calls ((call_name, f) # rest) d = install_calls rest (d(call_name \<mapsto> f))"

text \<open>
  \<^verbatim>\<open>GrpcClient.__init__\<close>. Two collaborators that are not among the sources are
  parameters: \<open>client_calls\<close> is the list that
  \<^verbatim>\<open>ipc_loader.client_calls(daemon_provider=self.provide_client)\<close> returns, and
  \<open>get_companion_info\<close> is the companion manager's lookup, which returns the
  companion's description or raises. Only \<open>IdbException\<close> is caught by the
  \<^verbatim>\<open>try\<close> block; any other exception of the lookup leaves the constructor.
  The collaborators' own constructors and \<^verbatim>\<open>Channel\<close> are taken not to raise.
  \<open>installed\<close> holds the attributes the loop sets. The names of the registry are call
  names, taken to differ from the names of the attributes the constructor assigns itself
  and of the methods the class declares, so neither hides the other.
\<close>

definition GrpcClient_init ::
  "(string \<times> 'f) list \<Rightarrow> (string option \<Rightarrow> exn + companion_info) \<Rightarrow>
   int \<Rightarrow> string \<Rightarrow> string option \<Rightarrow> py_logger option \<Rightarrow> bool \<Rightarrow> 'f GrpcClient io" where
  "GrpcClient_init client_calls get_companion_info port_arg host_arg udid logger_arg force w =
     (let lg = (case logger_arg of Some l \<Rightarrow> l | None \<Rightarrow> Logger ''idb_grpc_client'');
          self = \<lparr>port = port_arg, host = host_arg, logger = lg, force_kill_daemon = force,
                  target_udid = udid, daemon_channel = None, daemon_stub = None,
                  installed = install_calls client_calls Map.empty,
                  channel = None, stub = None, companion_info = None\<rparr>
      in case get_companion_info udid of
           Inr ci \<Rightarrow>
             (case new_channel (ci_host ci) (ci_port ci)
                     (w\<lparr>logged := logged w @ [Info_using_companion lg ci]\<rparr>) of
                (ch, w') \<Rightarrow>
                  (Inr (self\<lparr>channel := Some ch, stub := Some (CompanionServiceStub ch),
                             companion_info := Some ci\<rparr>), w'))
         | Inl (IdbException a c) \<Rightarrow>
             (Inr self, w\<lparr>logged := logged w @ [Info_exception lg (IdbException a c)]\<rparr>)
         | Inl e \<Rightarrow> (Inl e, w))"


subsection \<open>The daemon connection provider\<close>

text \<open>
  \<^verbatim>\<open>provide_client\<close> has one suspension point, the awaited call of
  \<^verbatim>\<open>start_daemon_if_needed\<close>. The spawner is not among the sources; it is the
  parameter \<open>spawner\<close>, which is given the \<^verbatim>\<open>force_kill\<close> flags of all calls made
  to it so far, the current one last, and answers \<open>None\<close> when the call returns and
  \<open>Some e\<close> when it raises \<open>e\<close>. \<open>provide_client_resume\<close> is the code after the
  suspension point.
\<close>

definition provide_client_resume ::
  "'f GrpcClient \<Rightarrow> world \<Rightarrow> companion_client \<times> 'f GrpcClient \<times> world" where
  "provide_client_resume self w =
     (case (daemon_channel self, daemon_stub self) of
        (Some ch, Some st) \<Rightarrow>
          (\<lparr>cc_stub = st, cc_is_local = True, cc_udid = target_udid self,
            cc_logger = logger self\<rparr>, self, w)
      | _ \<Rightarrow>
          (case new_channel (host self) (port self) w of
             (ch, w') \<Rightarrow>
               (\<lparr>cc_stub = CompanionServiceStub ch, cc_is_local = True,
                 cc_udid = target_udid self, cc_logger = logger self\<rparr>,
                self\<lparr>daemon_channel := Some ch, daemon_stub := Some (CompanionServiceStub ch)\<rparr>,
                w')))"

definition provide_client ::
  "(bool list \<Rightarrow> exn option) \<Rightarrow> 'f GrpcClient \<Rightarrow> world \<Rightarrow>
   (exn + companion_client) \<times> 'f GrpcClient \<times> world" where
  "provide_client spawner self w =
     (let w1 = w\<lparr>spawner_calls := spawner_calls w @ [force_kill_daemon self]\<rparr>
      in case spawner (spawner_calls w1) of
           Some e \<Rightarrow> (Inl e, self, w1)
         | None \<Rightarrow> (case provide_client_resume self w1 of (c, self', w2) \<Rightarrow> (Inr c, self', w2)))"

subsection \<open>Calls routed to the companion directly\<close>

definition io_return :: "'a \<Rightarrow> 'a io" where
  "io_return v w = (Inr v, w)"

definition io_raise :: "exn \<Rightarrow> 'a io" where
  "io_raise e w = (Inl e, w)"

text \<open>
  A unary call whose reply carries nothing the facade reads, and every operation on the
  upload stream: the attempt joins the trace, then the transport lets it pass or raises.
\<close>

definition transport_op :: "transport \<Rightarrow> net_event \<Rightarrow> unit io" where
  "transport_op T ev w =
     (let h = net w @ [ev]
      in ((case fault T h of Some e \<Rightarrow> Inl e | None \<Rightarrow> Inr ()), w\<lparr>net := h\<rparr>))"

definition stub_list_apps :: "transport \<Rightarrow> grpc_stub \<Rightarrow> request \<Rightarrow> int app_info list io" where
  "stub_list_apps T st req w =
     (let h = net w @ [Unary st req] in (list_apps_reply T h, w\<lparr>net := h\<rparr>))"

definition stub_accessibility_info :: "transport \<Rightarrow> grpc_stub \<Rightarrow> request \<Rightarrow> string io" where
  "stub_accessibility_info T st req w =
     (let h = net w @ [Unary st req] in (accessibility_info_reply T h, w\<lparr>net := h\<rparr>))"

text \<open>
  The list comprehension of \<^verbatim>\<open>list_apps\<close>. \<^verbatim>\<open>AppProcessState\<close> is declared
  outside the sources; the conversion of the wire value, which may raise, is the
  parameter \<open>aps\<close>.
\<close>

fun convert_apps :: "(int \<Rightarrow> exn + 'ps) \<Rightarrow> int app_info list \<Rightarrow> exn + 'ps app_info list" where
  "convert_apps aps [] = Inr []"
| "convert_apps aps (a # rest) =
     (case aps (app_process_state a) of
        Inl e \<Rightarrow> Inl e
      | Inr s \<Rightarrow>
          (case convert_apps aps rest of
             Inl e \<Rightarrow> Inl e
           | Inr infos \<Rightarrow>
               Inr (\<lparr>app_bundle_id = app_bundle_id a, app_name = app_name a,
                     app_architectures = app_architectures a,
                     app_install_type = app_install_type a,
                     app_process_state = s, app_debuggable = app_debuggable a\<rparr> # infos)))"

text \<open>
  In every body below the attribute \<^verbatim>\<open>self.stub.<call>\<close> is evaluated first; on a
  stub that is \<^verbatim>\<open>None\<close> this raises \<open>AttributeError\<close>, here carrying the name looked up.
\<close>

definition list_apps_body ::
  "transport \<Rightarrow> (int \<Rightarrow> exn + 'ps) \<Rightarrow> 'f GrpcClient \<Rightarrow> 'ps app_info list io" where
  "list_apps_body T aps self =
     (case stub self of
        None \<Rightarrow> io_raise (AttributeError ''list_apps'')
      | Some st \<Rightarrow>
          io_bind (stub_list_apps T st ListAppsRequest) (\<lambda>apps w. (convert_apps aps apps, w)))"

definition list_apps ::
  "transport \<Rightarrow> (int \<Rightarrow> exn + 'ps) \<Rightarrow> 'f GrpcClient \<Rightarrow> 'ps app_info list coroutine io" where
  "list_apps T aps = log_and_handle_exceptions ''list_apps'' (async_def (list_apps_body T aps))"

datatype AccessibilityInfo = AccessibilityInfo string

definition accessibility_info_body ::
  "transport \<Rightarrow> 'f GrpcClient \<times> (int \<times> int) option \<Rightarrow> AccessibilityInfo io" where
  "accessibility_info_body T = (\<lambda>(self, point).
     (let grpc_point = (case point of Some (px, py) \<Rightarrow> Some (Point px py) | None \<Rightarrow> None)
      in case stub self of
           None \<Rightarrow> io_raise (AttributeError ''accessibility_info'')
         | Some st \<Rightarrow>
             io_bind (stub_accessibility_info T st (AccessibilityInfoRequest grpc_point))
               (\<lambda>json. io_return (AccessibilityInfo json))))"

definition accessibility_info ::
  "transport \<Rightarrow> 'f GrpcClient \<times> (int \<times> int) option \<Rightarrow> AccessibilityInfo coroutine io" where
  "accessibility_info T =
     log_and_handle_exceptions ''accessibility_info'' (async_def (accessibility_info_body T))"

subsection \<open>The upload pipeline\<close>

text \<open>
  \<^verbatim>\<open>async with self.stub.add_media.open() as stream\<close>: the stream is opened, the block
  runs, and the stream is closed on every way out of the block. An exception of the
  block is the one the caller sees.
\<close>

definition with_stream :: "transport \<Rightarrow> grpc_stub \<Rightarrow> 'a io \<Rightarrow> 'a io" where
  "with_stream T st block =
     io_bind (transport_op T (Stream_open st)) (\<lambda>u w.
       case block w of
         (Inl e, w1) \<Rightarrow> (Inl e, w1\<lparr>net := net w1 @ [Stream_close]\<rparr>)
       | (Inr v, w1) \<Rightarrow> io_bind (transport_op T Stream_close) (\<lambda>u. io_return v) w1)"

text \<open>The loop over \<^verbatim>\<open>file_paths\<close> of the local branch.\<close>

fun send_paths :: "transport \<Rightarrow> string list \<Rightarrow> unit io" where
  "send_paths T [] = io_return ()"
| "send_paths T (file_path # rest) =
     io_bind (transport_op T (Stream_send (AddMediaRequest (File_path file_path))))
       (\<lambda>u. send_paths T rest)"

text \<open>
  An asynchronous generator that has no effect on the world of its own: the items it
  yields, in order, and how it ends (exhausted, or raising). The archive generator
  \<^verbatim>\<open>generate_tar\<close> is a collaborator and a parameter of \<open>add_media\<close>.
\<close>

datatype 'a generator = Generator "'a list" "exn option"

text \<open>
  Modelled from the spec: \<^verbatim>\<open>idb.common.stream.stream_map\<close> is not among the sources.
  The spec has it map each chunk of the sequence into a message, in order.
\<close>

fun stream_map :: "'a generator \<Rightarrow> ('a \<Rightarrow> 'b) \<Rightarrow> 'b generator" where
  "stream_map (Generator items ending) f = Generator (map f items) ending"

text \<open>
  Modelled from the spec: \<^verbatim>\<open>idb.grpc.stream.drain_to_stream\<close> is not among the
  sources. The spec has it drain the sequence onto the stream and then await the
  acknowledgment the way the local branch does: after the last item, signal end-of-input
  and read one message. The sequence is consumed lazily, one item per send, so a
  generator that raises does so after the items before it were sent.
\<close>

fun drain_items :: "transport \<Rightarrow> request list \<Rightarrow> exn option \<Rightarrow> unit io" where
  "drain_items T [] None = io_return ()"
| "drain_items T [] (Some e) = io_raise e"
| "drain_items T (message # rest) ending =
     io_bind (transport_op T (Stream_send message)) (\<lambda>u. drain_items T rest ending)"

text \<open>
  Modelled from the spec: \<^verbatim>\<open>drain_to_stream\<close> itself (see above), which sends the
  items, signals end-of-input and reads the acknowledgment.
\<close>

fun drain_to_stream :: "transport \<Rightarrow> request generator \<Rightarrow> unit io" where
  "drain_to_stream T (Generator messages ending) =
     io_bind (drain_items T messages ending) (\<lambda>u.
     io_bind (transport_op T Stream_end) (\<lambda>u.
     transport_op T Stream_recv))"

definition add_media_body ::
  "transport \<Rightarrow> (string list \<Rightarrow> bool \<Rightarrow> bytes generator) \<Rightarrow>
   'f GrpcClient \<times> string list \<Rightarrow> unit io" where
  "add_media_body T generate_tar = (\<lambda>(self, file_paths).
     case stub self of
       None \<Rightarrow> io_raise (AttributeError ''add_media'')
     | Some st \<Rightarrow>
         with_stream T st
           (case companion_info self of
              None \<Rightarrow> io_raise (AttributeError ''companion_info'')
            | Some ci \<Rightarrow>
                if ci_is_local ci
                then io_bind (send_paths T file_paths) (\<lambda>u.
                     io_bind (transport_op T Stream_end) (\<lambda>u.
                     transport_op T Stream_recv))
                else drain_to_stream T
                       (stream_map (generate_tar file_paths True)
                          (\<lambda>chunk. AddMediaRequest (Data chunk)))))"

definition add_media ::
  "transport \<Rightarrow> (string list \<Rightarrow> bool \<Rightarrow> bytes generator) \<Rightarrow>
   'f GrpcClient \<times> string list \<Rightarrow> unit coroutine io" where
  "add_media T generate_tar =
     log_and_handle_exceptions ''add_media'' (async_def (add_media_body T generate_tar))"

subsection \<open>Granting permissions\<close>

definition APPROVE_MAP :: "string \<rightharpoonup> permission" where
  "APPROVE_MAP = map_of [(''photos'', PHOTOS), (''camera'', CAMERA), (''contacts'', CONTACTS)]"

text \<open>
  \<^verbatim>\<open>[APPROVE_MAP[permission] for permission in permissions]\<close>: the set is given as
  the list of its members in iteration order; a name that is not a key raises
  \<open>KeyError\<close> with that name.
\<close>

fun lookup_permissions :: "string list \<Rightarrow> exn + permission list" where
  "lookup_permissions [] = Inr []"
| "lookup_permissions (p # rest) =
     (case APPROVE_MAP p of
        None \<Rightarrow> Inl (KeyError p)
      | Some v \<Rightarrow>
          (case lookup_permissions rest of Inl e \<Rightarrow> Inl e | Inr vs \<Rightarrow> Inr (v # vs)))"

definition approve_body ::
  "transport \<Rightarrow> 'f GrpcClient \<times> string \<times> string list \<Rightarrow> unit io" where
  "approve_body T = (\<lambda>(self, bundle_id, permissions).
     case stub self of
       None \<Rightarrow> io_raise (AttributeError ''approve'')
     | Some st \<Rightarrow>
         (case lookup_permissions permissions of
            Inl e \<Rightarrow> io_raise e
          | Inr ps \<Rightarrow> transport_op T (Unary st (ApproveRequest bundle_id ps))))"

definition approve ::
  "transport \<Rightarrow> 'f GrpcClient \<times> string \<times> string list \<Rightarrow> unit coroutine io" where
  "approve T = log_and_handle_exceptions ''approve'' (async_def (approve_body T))"

section \<open>Concurrent callers of the provider\<close>

text \<open>
  Callers of \<^verbatim>\<open>provide_client\<close> that share one facade on one event loop. A caller
  runs without interruption between suspension points, and \<^verbatim>\<open>provide_client\<close> has
  one: the awaited spawner call. \<open>Start i\<close> runs caller \<open>i\<close> up to that point, where
  the call to the spawner is made; \<open>Resume i outcome\<close> is the moment the spawner call of
  caller \<open>i\<close> is over, having returned (\<open>None\<close>) or raised (\<open>Some e\<close>), and runs the
  rest of the caller. A schedule is any list of such steps; a step that does not apply
  to the caller's state changes nothing.
\<close>

datatype task = Not_started | Awaiting_spawner | Finished "exn + companion_client"

datatype step = Start nat | Resume nat "exn option"

record 'f event_loop =
  tasks :: "task list"
  client :: "'f GrpcClient"
  outside :: world

fun run_step :: "step \<Rightarrow> 'f event_loop \<Rightarrow> 'f event_loop" where
  "run_step (Start i) s =
     (if i < length (tasks s) \<and> tasks s ! i = Not_started
      then s\<lparr>tasks := (tasks s)[i := Awaiting_spawner],
             outside := (outside s)\<lparr>spawner_calls :=
                          spawner_calls (outside s) @ [force_kill_daemon (client s)]\<rparr>\<rparr>
      else s)"
| "run_step (Resume i outcome) s =
     (if i < length (tasks s) \<and> tasks s ! i = Awaiting_spawner
      then (case outcome of
              Some e \<Rightarrow> s\<lparr>tasks := (tasks s)[i := Finished (Inl e)]\<rparr>
            | None \<Rightarrow>
                (case provide_client_resume (client s) (outside s) of
                   (c, self', w') \<Rightarrow>
                     \<lparr>tasks = (tasks s)[i := Finished (Inr c)], client = self', outside = w'\<rparr>))
      else s)"

fun run :: "step list \<Rightarrow> 'f event_loop \<Rightarrow> 'f event_loop" where
  "run [] s = s"
| "run (x # xs) s = run xs (run_step x s)"

definition callers :: "nat \<Rightarrow> 'f GrpcClient \<Rightarrow> world \<Rightarrow> 'f event_loop" where
  "callers n self w = \<lparr>tasks = replicate n Not_started, client = self, outside = w\<rparr>"

fun started :: "task \<Rightarrow> bool" where
  "started Not_started = False"
| "started t = True"

text \<open>The client object \<^verbatim>\<open>provide_client\<close> returns for a daemon stub.\<close>

definition handle_of :: "'f GrpcClient \<Rightarrow> grpc_stub \<Rightarrow> companion_client" where
  "handle_of self st =
     \<lparr>cc_stub = st, cc_is_local = True, cc_udid = target_udid self, cc_logger = logger self\<rparr>"

text \<open>
  The spawner call of one caller, followed through a schedule by that caller's own steps
  alone: not made yet, made and not over, returned, or raised.
\<close>

datatype spawner_call = Not_called | In_flight | Returned | Raised exn

fun track :: "nat \<Rightarrow> spawner_call \<Rightarrow> step \<Rightarrow> spawner_call" where
  "track i Not_called (Start j) = (if j = i then In_flight else Not_called)"
| "track i In_flight (Resume j outcome) =
     (if j = i then (case outcome of None \<Rightarrow> Returned | Some e \<Rightarrow> Raised e) else In_flight)"
| "track i c x = c"

fun own_spawner_call :: "nat \<Rightarrow> spawner_call \<Rightarrow> step list \<Rightarrow> spawner_call" where
  "own_spawner_call i c [] = c"
| "own_spawner_call i c (x # xs) = own_spawner_call i (track i c x) xs"

text \<open>What a caller holds, given how its own spawner call stands and the client handed out.\<close>

fun result_of :: "companion_client \<Rightarrow> spawner_call \<Rightarrow> task" where
  "result_of handle Not_called = Not_started"
| "result_of handle In_flight = Awaiting_spawner"
| "result_of handle Returned = Finished (Inr handle)"
| "result_of handle (Raised e) = Finished (Inl e)"

text \<open>
  The client on the first channel constructed after world \<open>w\<close>, to the facade's host and
  port.
\<close>

definition first_handle :: "'f GrpcClient \<Rightarrow> world \<Rightarrow> companion_client" where
  "first_handle self w =
     handle_of self (CompanionServiceStub (Channel (host self) (port self) (length (dialed w))))"

text \<open>
  What holds of the event loop after any number of steps, for a facade \<open>self\<close> that had no
  daemon connection when the callers began in world \<open>w\<close>; \<open>calls i\<close> is how the spawner
  call of caller \<open>i\<close> stands.
\<close>

definition callers_invariant ::
  "'f GrpcClient \<Rightarrow> world \<Rightarrow> nat \<Rightarrow> (nat \<Rightarrow> spawner_call) \<Rightarrow> 'f event_loop \<Rightarrow> bool" where
  "callers_invariant self w n calls s \<longleftrightarrow>
     length (tasks s) = n \<and>
     (\<forall>i<n. tasks s ! i = result_of (first_handle self w) (calls i)) \<and>
     spawner_calls (outside s) =
       spawner_calls w @ replicate (length (filter started (tasks s))) (force_kill_daemon self) \<and>
     logged (outside s) = logged w \<and> net (outside s) = net w \<and>
     (if \<exists>i<n. calls i = Returned
      then client s =
             self\<lparr>daemon_channel := Some (Channel (host self) (port self) (length (dialed w))),
                  daemon_stub := Some (CompanionServiceStub
                                         (Channel (host self) (port self) (length (dialed w))))\<rparr> \<and>
           dialed (outside s) = dialed w @ [(host self, port self)]
      else client s = self \<and> dialed (outside s) = dialed w)"

section \<open>Sample inputs\<close>

definition sample_world :: world where
  "sample_world = \<lparr>logged = [], net = [], dialed = [], spawner_calls = []\<rparr>"

definition sample_companion :: "bool \<Rightarrow> companion_info" where
  "sample_companion loc =
     \<lparr>ci_udid = Some ''SIM-1'', ci_host = ''localhost'', ci_port = 10882, ci_is_local = loc\<rparr>"

text \<open>A transport that answers every attempt with a structured fault.\<close>

definition unavailable_transport :: transport where
  "unavailable_transport =
     \<lparr>list_apps_reply = (\<lambda>h. Inl (GRPCError 14 (Some ''unavailable''))),
      accessibility_info_reply = (\<lambda>h. Inl (GRPCError 14 (Some ''unavailable''))),
      fault = (\<lambda>h. Some (GRPCError 14 (Some ''unavailable'')))\<rparr>"

text \<open>A transport that never raises.\<close>

definition quiet_transport :: transport where
  "quiet_transport =
     \<lparr>list_apps_reply = (\<lambda>h. Inr []),
      accessibility_info_reply = (\<lambda>h. Inr ''{}''),
      fault = (\<lambda>h. None)\<rparr>"

text \<open>The facade the constructor builds when the companion lookup succeeds.\<close>

definition resolved_client :: "bool \<Rightarrow> unit GrpcClient" where
  "resolved_client loc =
     \<lparr>port = 9888, host = ''localhost'', logger = Logger ''idb_grpc_client'',
      force_kill_daemon = False, target_udid = Some ''SIM-1'', daemon_channel = None,
      daemon_stub = None, installed = Map.empty,
      channel = Some (Channel ''localhost'' 10882 0),
      stub = Some (CompanionServiceStub (Channel ''localhost'' 10882 0)),
      companion_info = Some (sample_companion loc)\<rparr>"

text \<open>A companion lookup that finds nothing, and a registry of one call that logs nothing.\<close>

definition no_companion :: "string option \<Rightarrow> exn + companion_info" where
  "no_companion udid = Inl (IdbException (Message (Some ''no companion for the target'')) None)"

definition quiet_call :: "unit \<Rightarrow> unit coroutine io" where
  "quiet_call = async_def (\<lambda>u. io_return ())"

text \<open>The facade the constructor builds from them.\<close>

definition unresolved_client :: "(unit \<Rightarrow> unit coroutine io) GrpcClient" where
  "unresolved_client =
     \<lparr>port = 9888, host = ''localhost'', logger = Logger ''idb_grpc_client'',
      force_kill_daemon = False, target_udid = Some ''SIM-9'', daemon_channel = None,
      daemon_stub = None, installed = [''screenshot'' \<mapsto> quiet_call],
      channel = None, stub = None, companion_info = None\<rparr>"



text \<open>A spawner whose calls all return, and one whose calls raise from the second on.\<close>

definition steady_spawner :: "bool list \<Rightarrow> exn option" where
  "steady_spawner calls = None"

definition flaky_spawner :: "bool list \<Rightarrow> exn option" where
  "flaky_spawner calls =
     (if length calls \<le> 1 then None else Some (OtherError ''daemon did not start''))"

text \<open>The same facade after its first daemon connection, and what the provider returned.\<close>

definition daemon_client :: companion_client where
  "daemon_client =
     \<lparr>cc_stub = CompanionServiceStub (Channel ''localhost'' 9888 0), cc_is_local = True,
      cc_udid = Some ''SIM-9'', cc_logger = Logger ''idb_grpc_client''\<rparr>"

definition connected_client :: "(unit \<Rightarrow> unit coroutine io) GrpcClient" where
  "connected_client =
     unresolved_client\<lparr>daemon_channel := Some (Channel ''localhost'' 9888 0),
                        daemon_stub := Some (CompanionServiceStub (Channel ''localhost'' 9888 0))\<rparr>"

definition dialed_once :: world where
  "dialed_once = sample_world\<lparr>dialed := [(''localhost'', 9888)], spawner_calls := [False]\<rparr>"

text \<open>An archive of two chunks.\<close>

definition two_chunks :: "string list \<Rightarrow> bool \<Rightarrow> bytes generator" where
  "two_chunks paths place_in_subfolders = Generator [[31, 139, 8], [0, 255]] None"

section \<open>Lemmas\<close>

text \<open>
  Awaiting a decorated \<^verbatim>\<open>async def\<close> function: the call-boundary event is logged and
  the body runs; whatever the body returns or raises is what the caller gets.
\<close>

lemma await_decorated:
  "call_await (log_and_handle_exceptions nm (async_def body)) args w =
     body args (w\<lparr>logged := logged w @ [Call_boundary nm]\<rparr>)"
  by (simp add: log_and_handle_exceptions_def log_call_def call_await_def io_bind_def
      async_def_def func_wrapper_def)

text \<open>A fault that the wrapped call itself raises, before returning anything, is translated.\<close>

lemma func_wrapper_translates_call_time_fault:
  "func_wrapper (\<lambda>args. io_raise (GRPCError st m)) args w =
     (Inl (IdbException (Message m) (Some (GRPCError st m))), w)"
  "func_wrapper (\<lambda>args. io_raise (ProtocolError a)) args w =
     (Inl (IdbException (Fault_args a) (Some (ProtocolError a))), w)"
  "func_wrapper (\<lambda>args. io_raise (StreamTerminatedError a)) args w =
     (Inl (IdbException (Fault_args a) (Some (StreamTerminatedError a))), w)"
  by (simp_all add: func_wrapper_def io_raise_def)

lemma resolved_client_constructed:
  "fst (GrpcClient_init [] (\<lambda>u. Inr (sample_companion loc)) 9888 ''localhost'' (Some ''SIM-1'')
          None False sample_world) = Inr (resolved_client loc)"
  by (simp add: GrpcClient_init_def resolved_client_def sample_world_def new_channel_def
        sample_companion_def Let_def)

lemma unresolved_client_constructed:
  "GrpcClient_init [(''screenshot'', quiet_call)] no_companion 9888 ''localhost''
      (Some ''SIM-9'') None False sample_world =
     (Inr unresolved_client,
      sample_world\<lparr>logged := [Info_exception (Logger ''idb_grpc_client'')
         (IdbException (Message (Some ''no companion for the target'')) None)]\<rparr>)"
  by (simp add: GrpcClient_init_def no_companion_def unresolved_client_def Let_def
        sample_world_def)

lemma init_failed_resolution:
  assumes "get_companion_info udid = Inl (IdbException a c)"
  shows "GrpcClient_init cc get_companion_info p h udid lg force w =
     (Inr \<lparr>port = p, host = h,
           logger = (case lg of Some l \<Rightarrow> l | None \<Rightarrow> Logger ''idb_grpc_client''),
           force_kill_daemon = force, target_udid = udid, daemon_channel = None,
           daemon_stub = None, installed = install_calls cc Map.empty,
           channel = None, stub = None, companion_info = None\<rparr>,
      w\<lparr>logged := logged w @
          [Info_exception (case lg of Some l \<Rightarrow> l | None \<Rightarrow> Logger ''idb_grpc_client'')
             (IdbException a c)]\<rparr>)"
  using assms by (simp add: GrpcClient_init_def Let_def)

lemma install_calls_map_of: "install_calls cc d = d ++ map_of (rev cc)"
proof (induction cc arbitrary: d)
  case Nil
  show ?case by simp
next
  case (Cons pair rest)
  obtain n f where pair: "pair = (n, f)" by (cases pair)
  have "install_calls (pair # rest) d = install_calls rest (d(n \<mapsto> f))"
    by (simp only: pair install_calls.simps)
  also have "\<dots> = d(n \<mapsto> f) ++ map_of (rev rest)"
    by (rule Cons.IH)
  also have "\<dots> = d ++ map_of (rev (pair # rest))"
    by (simp add: pair map_add_assoc [symmetric])
  finally show ?case .
qed




lemma direct_calls_without_stub:
  assumes "stub self = None"
  shows "call_await (list_apps T aps) self w =
           (Inl (AttributeError ''list_apps''), w\<lparr>logged := logged w @ [Call_boundary ''list_apps'']\<rparr>)"
    and "call_await (accessibility_info T) (self, point) w =
           (Inl (AttributeError ''accessibility_info''),
            w\<lparr>logged := logged w @ [Call_boundary ''accessibility_info'']\<rparr>)"
    and "call_await (add_media T tar) (self, paths) w =
           (Inl (AttributeError ''add_media''), w\<lparr>logged := logged w @ [Call_boundary ''add_media'']\<rparr>)"
    and "call_await (approve T) (self, b, perms) w =
           (Inl (AttributeError ''approve''), w\<lparr>logged := logged w @ [Call_boundary ''approve'']\<rparr>)"
  using assms
  by (simp_all add: await_decorated list_apps_def list_apps_body_def accessibility_info_def
        accessibility_info_body_def add_media_def add_media_body_def approve_def
        approve_body_def io_raise_def split: option.splits)

lemma send_paths_no_fault:
  assumes "\<forall>h. fault T h = None"
  shows "send_paths T file_paths w =
     (Inr (), w\<lparr>net := net w @ map (\<lambda>p. Stream_send (AddMediaRequest (File_path p))) file_paths\<rparr>)"
  using assms
  by (induction file_paths arbitrary: w) (simp_all add: io_return_def io_bind_def transport_op_def)

lemma drain_items_no_fault:
  assumes "\<forall>h. fault T h = None"
  shows "drain_items T messages None w =
     (Inr (), w\<lparr>net := net w @ map Stream_send messages\<rparr>)"
  using assms
  by (induction messages arbitrary: w) (simp_all add: io_return_def io_bind_def transport_op_def)

text \<open>
  Under a transport that may raise at any operation, the local branch never sends out
  of order, never sends twice and never signals end-of-input before the last path: what
  it adds to the trace is a prefix of the path messages, the end-of-input signal and the
  read, between the opening of the stream and its close.
\<close>

lemma send_paths_trace:
  "\<exists>k\<le>length file_paths.
     net (snd (send_paths T file_paths w)) =
       net w @ map (\<lambda>p. Stream_send (AddMediaRequest (File_path p))) (take k file_paths) \<and>
     (fst (send_paths T file_paths w) = Inr () \<longrightarrow> k = length file_paths) \<and>
     logged (snd (send_paths T file_paths w)) = logged w"
proof (induction file_paths arbitrary: w)
  case Nil
  show ?case by (simp add: io_return_def)
next
  case (Cons a rest)
  let ?w1 = "w\<lparr>net := net w @ [Stream_send (AddMediaRequest (File_path a))]\<rparr>"
  show ?case
  proof (cases "fault T (net ?w1)")
    case None
    from Cons.IH [of ?w1] obtain k where k: "k \<le> length rest"
      "net (snd (send_paths T rest ?w1)) =
         net ?w1 @ map (\<lambda>p. Stream_send (AddMediaRequest (File_path p))) (take k rest)"
      "fst (send_paths T rest ?w1) = Inr () \<longrightarrow> k = length rest"
      "logged (snd (send_paths T rest ?w1)) = logged ?w1"
      by blast
    have step: "send_paths T (a # rest) w = send_paths T rest ?w1"
      using None by (simp add: io_bind_def transport_op_def)
    show ?thesis
      by (rule exI [of _ "Suc k"]) (use k step in simp)
  next
    case (Some e)
    then have "send_paths T (a # rest) w = (Inl e, ?w1)"
      by (simp add: io_bind_def transport_op_def)
    then show ?thesis
      by (intro exI [of _ "Suc 0"]) simp
  qed
qed


lemma local_block_trace:
  fixes T :: transport and file_paths :: "string list" and w :: world
  defines "block \<equiv> io_bind (send_paths T file_paths) (\<lambda>u.
                      io_bind (transport_op T Stream_end) (\<lambda>u. transport_op T Stream_recv))"
      and "full \<equiv> map (\<lambda>p. Stream_send (AddMediaRequest (File_path p))) file_paths @
                     [Stream_end, Stream_recv]"
  shows "\<exists>k\<le>length full. net (snd (block w)) = net w @ take k full \<and>
           logged (snd (block w)) = logged w"
proof -
  let ?sends = "map (\<lambda>p. Stream_send (AddMediaRequest (File_path p))) file_paths"
  obtain k where k: "k \<le> length file_paths"
      "net (snd (send_paths T file_paths w)) = net w @ take k ?sends"
      "fst (send_paths T file_paths w) = Inr () \<longrightarrow> k = length file_paths"
      "logged (snd (send_paths T file_paths w)) = logged w"
    using send_paths_trace [of file_paths T w] by (auto simp: take_map)
  obtain r w1 where sp: "send_paths T file_paths w = (r, w1)"
    by (cases "send_paths T file_paths w")
  show ?thesis
  proof (cases r)
    case (Inl e)
    then have "block w = (Inl e, w1)"
      by (simp add: block_def io_bind_def sp)
    with k sp show ?thesis
      by (intro exI [of _ k]) (simp add: full_def)
  next
    case (Inr u)
    with k sp have w1: "net w1 = net w @ ?sends" "logged w1 = logged w"
      by simp_all
    show ?thesis
    proof (cases "fault T (net w1 @ [Stream_end])")
      case (Some e)
      then have "block w = (Inl e, w1\<lparr>net := net w1 @ [Stream_end]\<rparr>)"
        by (simp add: block_def io_bind_def sp Inr transport_op_def)
      with w1 show ?thesis
        by (intro exI [of _ "Suc (length file_paths)"]) (simp add: full_def)
    next
      case None
      then have "snd (block w) = w1\<lparr>net := net w1 @ [Stream_end, Stream_recv]\<rparr>"
        by (simp add: block_def io_bind_def sp Inr transport_op_def Let_def)
      with w1 show ?thesis
        by (intro exI [of _ "length full"]) (simp add: full_def)
    qed
  qed
qed

lemma with_stream_trace:
  assumes "fault T (net w @ [Stream_open st]) = None"
      and "block (w\<lparr>net := net w @ [Stream_open st]\<rparr>) = (r, w2)"
  shows "net (snd (with_stream T st block w)) = net w2 @ [Stream_close]"
  using assms
  by (cases r) (simp_all add: with_stream_def io_bind_def transport_op_def io_return_def Let_def
        split: option.splits)

lemma add_media_local_trace_under_faults:
  fixes file_paths :: "string list"
  assumes "stub self = Some st" and "companion_info self = Some ci" and "ci_is_local ci"
  defines "full \<equiv> map (\<lambda>p. Stream_send (AddMediaRequest (File_path p))) file_paths @
                     [Stream_end, Stream_recv]"
  shows "net (snd (call_await (add_media T generate_tar) (self, file_paths) w)) =
           net w @ [Stream_open st] \<or>
         (\<exists>k\<le>length full.
            net (snd (call_await (add_media T generate_tar) (self, file_paths) w)) =
              net w @ Stream_open st # take k full @ [Stream_close])"
proof -
  let ?w0 = "w\<lparr>logged := logged w @ [Call_boundary ''add_media'']\<rparr>"
  let ?w1 = "?w0\<lparr>net := net w @ [Stream_open st]\<rparr>"
  let ?block = "io_bind (send_paths T file_paths) (\<lambda>u.
                  io_bind (transport_op T Stream_end) (\<lambda>u. transport_op T Stream_recv))"
  have run: "call_await (add_media T generate_tar) (self, file_paths) w =
               with_stream T st ?block ?w0"
    using assms(1-3) by (simp add: await_decorated add_media_def add_media_body_def)
  show ?thesis
  proof (cases "fault T (net w @ [Stream_open st])")
    case (Some e)
    then have "with_stream T st ?block ?w0 = (Inl e, ?w1)"
      by (simp add: with_stream_def io_bind_def transport_op_def)
    with run show ?thesis by simp
  next
    case None
    obtain k where k: "k \<le> length full" "net (snd (?block ?w1)) = net ?w1 @ take k full"
      using local_block_trace [where T = T and file_paths = file_paths and w = ?w1]
      unfolding full_def by blast
    obtain r w2 where blk: "?block ?w1 = (r, w2)"
      by (cases "?block ?w1")
    have "net (snd (with_stream T st ?block ?w0)) = net w2 @ [Stream_close]"
      using None blk by (intro with_stream_trace [where r = r]) simp_all
    with k blk run show ?thesis by auto
  qed
qed

lemma find_unknown_permission:
  assumes "p \<in> set permissions" and "APPROVE_MAP p = None"
  shows "\<exists>q. find (\<lambda>p. APPROVE_MAP p = None) permissions = Some q"
  using assms by (induction permissions) auto

lemma lookup_permissions_unknown:
  "find (\<lambda>p. APPROVE_MAP p = None) permissions = Some q \<Longrightarrow>
   lookup_permissions permissions = Inl (KeyError q)"
  by (induction permissions) (auto split: if_splits)

lemma APPROVE_MAP_dom: "dom APPROVE_MAP = {''photos'', ''camera'', ''contacts''}"
  by (auto simp: APPROVE_MAP_def split: if_splits)

lemma provide_client_first:
  "provide_client steady_spawner unresolved_client sample_world =
     (Inr daemon_client, connected_client, dialed_once)"
  by (simp add: provide_client_def provide_client_resume_def new_channel_def Let_def
        steady_spawner_def unresolved_client_def sample_world_def daemon_client_def
        connected_client_def dialed_once_def)

subsection \<open>The event loop\<close>

text \<open>One caller alone on the loop is \<open>provide_client\<close>.\<close>

lemma single_caller_is_provide_client:
  "run [Start 0, Resume 0 (spawner (spawner_calls w @ [force_kill_daemon self]))] (callers 1 self w)
     = (case provide_client spawner self w of
          (r, self', w') \<Rightarrow> \<lparr>tasks = [Finished r], client = self', outside = w'\<rparr>)"
  by (simp add: callers_def provide_client_def Let_def split: option.splits prod.splits)

lemma filter_started_update:
  "i < length ts \<Longrightarrow> \<not> started (ts ! i) \<Longrightarrow> started t \<Longrightarrow>
   length (filter started (ts[i := t])) = Suc (length (filter started ts))"
proof (induction ts arbitrary: i)
  case Nil
  then show ?case by simp
next
  case (Cons a ts)
  then show ?case by (cases i) auto
qed

lemma filter_started_update_same:
  "i < length ts \<Longrightarrow> started (ts ! i) \<Longrightarrow> started t \<Longrightarrow>
   length (filter started (ts[i := t])) = length (filter started ts)"
proof (induction ts arbitrary: i)
  case Nil
  then show ?case by simp
next
  case (Cons a ts)
  then show ?case by (cases i) auto
qed

lemma result_of_simps_inv [simp]:
  "result_of h c = Not_started \<longleftrightarrow> c = Not_called"
  "result_of h c = Awaiting_spawner \<longleftrightarrow> c = In_flight"
  by (cases c; simp)+

lemma started_result_of [simp]: "started (result_of h c) \<longleftrightarrow> c \<noteq> Not_called"
  by (cases c) simp_all

lemma track_other [simp]:
  "j \<noteq> i \<Longrightarrow> track i c (Start j) = c"
  "j \<noteq> i \<Longrightarrow> track i c (Resume j outcome) = c"
  by (cases c; simp)+

lemma track_idle [simp]:
  "c \<noteq> Not_called \<Longrightarrow> track i c (Start j) = c"
  "c \<noteq> In_flight \<Longrightarrow> track i c (Resume j outcome) = c"
  by (cases c; simp)+

lemma track_Returned [simp]:
  "track i c (Start j) = Returned \<longleftrightarrow> c = Returned"
  "track i c (Resume j (Some e)) = Returned \<longleftrightarrow> c = Returned"
  by (cases c; cases "j = i"; simp)+

lemma callers_invariant_initial:
  "callers_invariant self w n (\<lambda>i. Not_called) (callers n self w)"
  by (simp add: callers_invariant_def callers_def)

lemma callers_invariant_step:
  assumes "daemon_channel self = None" and "daemon_stub self = None"
      and "callers_invariant self w n calls s"
  shows "callers_invariant self w n (\<lambda>i. track i (calls i) x) (run_step x s)"
proof (cases x)
  case (Start j)
  have same: "(\<exists>i<n. track i (calls i) (Start j) = Returned) \<longleftrightarrow> (\<exists>i<n. calls i = Returned)"
    by simp
  show ?thesis
  proof (cases "j < n \<and> calls j = Not_called")
    case True
    show ?thesis
      using assms(3) True unfolding Start callers_invariant_def same
      by (auto simp: nth_list_update filter_started_update replicate_append_same)
  next
    case False
    have keep: "\<And>i. i < n \<Longrightarrow> track i (calls i) (Start j) = calls i"
      using False by (case_tac "j = i") auto
    show ?thesis
      using assms(3) False keep unfolding Start callers_invariant_def same
      by auto
  qed
next
  case (Resume j outcome)
  show ?thesis
  proof (cases "j < n \<and> calls j = In_flight")
    case False
    have keep: "\<And>i. i < n \<Longrightarrow> track i (calls i) (Resume j outcome) = calls i"
      using False by (case_tac "j = i") auto
    then have same: "(\<exists>i<n. track i (calls i) (Resume j outcome) = Returned) \<longleftrightarrow>
                     (\<exists>i<n. calls i = Returned)"
      by auto
    show ?thesis
      using assms(3) False keep unfolding Resume callers_invariant_def same
      by auto
  next
    case True
    show ?thesis
    proof (cases outcome)
      case (Some e)
      have same: "(\<exists>i<n. track i (calls i) (Resume j (Some e)) = Returned) \<longleftrightarrow>
                     (\<exists>i<n. calls i = Returned)"
        by simp
      show ?thesis
        using assms(3) True unfolding Resume Some callers_invariant_def same
        by (auto simp: nth_list_update filter_started_update_same)
    next
      case None
      have now: "\<exists>i<n. track i (calls i) (Resume j None) = Returned"
        using True by (intro exI [of _ j]) simp
      show ?thesis
      proof (cases "\<exists>i<n. calls i = Returned")
        case yes: True
        show ?thesis
          using assms(3) True yes unfolding Resume None callers_invariant_def if_P [OF now]
          by (auto simp: nth_list_update filter_started_update_same provide_client_resume_def
                first_handle_def handle_of_def)
      next
        case no: False
        show ?thesis
          using assms True no unfolding Resume None callers_invariant_def if_P [OF now]
          by (auto simp: nth_list_update filter_started_update_same provide_client_resume_def
                first_handle_def handle_of_def new_channel_def)
      qed
    qed
  qed
qed

lemma callers_invariant_run:
  assumes "daemon_channel self = None" and "daemon_stub self = None"
  shows "callers_invariant self w n calls s \<Longrightarrow>
         callers_invariant self w n (\<lambda>i. own_spawner_call i (calls i) xs) (run xs s)"
proof (induction xs arbitrary: calls s)
  case Nil
  then show ?case by simp
next
  case (Cons x xs)
  from Cons.prems have "callers_invariant self w n (\<lambda>i. track i (calls i) x) (run_step x s)"
    by (rule callers_invariant_step [OF assms])
  then show ?case
    using Cons.IH [of "\<lambda>i. track i (calls i) x" "run_step x s"] by simp
qed

section \<open>The claims\<close>

text \<open>
  Claim C1: a structured transport fault raised at any point during a wrapped call,
  also after the call has started awaiting, reaches the caller as the domain exception
  with the fault's message.

  The code does not do this. The \<^verbatim>\<open>try\<close> block of \<^verbatim>\<open>func_wrapper\<close> holds only the
  call of the wrapped function, and every wrapped function is an \<^verbatim>\<open>async def\<close>: the
  call returns a coroutine and raises nothing. A fault raised while the coroutine is
  awaited reaches the caller as it is. First for any wrapped coroutine function whose
  body raises \<open>GRPCError\<close>, then for \<^verbatim>\<open>list_apps\<close> on a transport that answers with one.
\<close>

theorem fault_raised_while_awaiting_is_not_translated:
  "call_await (log_and_handle_exceptions nm (async_def (\<lambda>args. io_raise (GRPCError st m)))) args w
     = (Inl (GRPCError st m), w\<lparr>logged := logged w @ [Call_boundary nm]\<rparr>) \<and>
   fst (call_await (list_apps unavailable_transport aps) (resolved_client True) sample_world)
     = Inl (GRPCError 14 (Some ''unavailable''))"
  by (simp add: await_decorated io_raise_def list_apps_def list_apps_body_def
        resolved_client_def io_bind_def stub_list_apps_def unavailable_transport_def)



text \<open>
  Claim C3: for a local companion, \<^verbatim>\<open>add_media\<close> sends one message per path, each
  carrying the path itself and no file data, in the order of the list; after the last it
  signals end-of-input and then reads one acknowledgment. Stated for a facade whose
  direct stub is set and a transport that raises at no operation: the trace grows by the
  opening of the stream, the path messages in order, the end-of-input signal, one read
  and the close.
\<close>

theorem add_media_local_sends_paths_in_order:
  assumes "stub self = Some st" and "companion_info self = Some ci" and "ci_is_local ci"
      and "\<forall>h. fault T h = None"
  shows "call_await (add_media T generate_tar) (self, file_paths) w =
     (Inr (), w\<lparr>logged := logged w @ [Call_boundary ''add_media''],
                net := net w @ Stream_open st #
                         map (\<lambda>p. Stream_send (AddMediaRequest (File_path p))) file_paths @
                         [Stream_end, Stream_recv, Stream_close]\<rparr>)"
  using assms
  by (simp add: await_decorated add_media_def add_media_body_def with_stream_def io_bind_def
        transport_op_def send_paths_no_fault io_return_def)

theorem add_media_local_sends_paths_in_order_witness:
  "call_await (add_media quiet_transport two_chunks)
      (resolved_client True, [''a.png'', ''b.png'', ''c.png'']) sample_world =
     (Inr (), sample_world\<lparr>logged := [Call_boundary ''add_media''],
        net := [Stream_open (CompanionServiceStub (Channel ''localhost'' 10882 0)),
                Stream_send (AddMediaRequest (File_path ''a.png'')),
                Stream_send (AddMediaRequest (File_path ''b.png'')),
                Stream_send (AddMediaRequest (File_path ''c.png'')),
                Stream_end, Stream_recv, Stream_close]\<rparr>)"
  using add_media_local_sends_paths_in_order
    [where self = "resolved_client True" and ci = "sample_companion True"
       and T = quiet_transport and generate_tar = two_chunks
       and file_paths = "[''a.png'', ''b.png'', ''c.png'']" and w = sample_world]
  by (simp add: resolved_client_def sample_companion_def quiet_transport_def sample_world_def)

text \<open>
  Claim C4: for a companion that is not local, \<^verbatim>\<open>add_media\<close> sends the chunks of the
  archive generator, each as a data payload, in the generator's order, none dropped and
  none twice, and then reads one acknowledgment. Stated for a generator that yields
  \<open>chunks\<close> and ends, and a transport that raises at no operation. The draining of the
  sequence is modelled from the spec.
\<close>

theorem add_media_remote_sends_chunks_in_order:
  assumes "stub self = Some st" and "companion_info self = Some ci" and "\<not> ci_is_local ci"
      and "generate_tar file_paths True = Generator chunks None"
      and "\<forall>h. fault T h = None"
  shows "call_await (add_media T generate_tar) (self, file_paths) w =
     (Inr (), w\<lparr>logged := logged w @ [Call_boundary ''add_media''],
                net := net w @ Stream_open st #
                         map (\<lambda>chunk. Stream_send (AddMediaRequest (Data chunk))) chunks @
                         [Stream_end, Stream_recv, Stream_close]\<rparr>)"
  using assms
  by (simp add: await_decorated add_media_def add_media_body_def with_stream_def io_bind_def
        transport_op_def drain_items_no_fault io_return_def comp_def)

theorem add_media_remote_sends_chunks_in_order_witness:
  "call_await (add_media quiet_transport two_chunks)
      (resolved_client False, [''a.png'', ''b.png'', ''c.png'']) sample_world =
     (Inr (), sample_world\<lparr>logged := [Call_boundary ''add_media''],
        net := [Stream_open (CompanionServiceStub (Channel ''localhost'' 10882 0)),
                Stream_send (AddMediaRequest (Data [31, 139, 8])),
                Stream_send (AddMediaRequest (Data [0, 255])),
                Stream_end, Stream_recv, Stream_close]\<rparr>)"
  using add_media_remote_sends_chunks_in_order
    [where self = "resolved_client False" and ci = "sample_companion False"
       and T = quiet_transport and generate_tar = two_chunks
       and file_paths = "[''a.png'', ''b.png'', ''c.png'']" and w = sample_world]
  by (simp add: resolved_client_def sample_companion_def quiet_transport_def sample_world_def
        two_chunks_def)

text \<open>
  Claim C5, as amended: once \<^verbatim>\<open>provide_client\<close> has returned a client, the facade
  holds a daemon channel and the daemon stub of that client, and every later call, in
  whatever world \<open>w2\<close> it is made, first calls the spawner again with the same flag. If
  that call returns, the provider returns the same client (the cached stub), builds no
  channel and leaves the facade as it is; if it raises, the exception reaches the caller.
  Only the record of the spawner call is added to the world either way. Whether a later
  call spawns a process again is the spawner's decision: the provider asks it every
  time.
\<close>

theorem provide_client_reuses_cached_connection:
  assumes "provide_client spawner self w = (Inr c, self1, w1)"
  shows "daemon_stub self1 = Some (cc_stub c) \<and>
         (\<exists>ch. daemon_channel self1 = Some ch) \<and>
         provide_client spawner self1 w2 =
           (case spawner (spawner_calls w2 @ [force_kill_daemon self]) of
              Some e \<Rightarrow> (Inl e, self1, w2\<lparr>spawner_calls := spawner_calls w2 @ [force_kill_daemon self]\<rparr>)
            | None \<Rightarrow> (Inr c, self1, w2\<lparr>spawner_calls := spawner_calls w2 @ [force_kill_daemon self]\<rparr>))"
  using assms
  by (auto simp: provide_client_def provide_client_resume_def new_channel_def Let_def
        split: option.splits prod.splits)

theorem provide_client_reuses_cached_connection_witness:
  "provide_client steady_spawner unresolved_client sample_world =
     (Inr daemon_client, connected_client, dialed_once) \<and>
   daemon_stub connected_client = Some (cc_stub daemon_client) \<and>
   provide_client steady_spawner connected_client dialed_once =
     (Inr daemon_client, connected_client, dialed_once\<lparr>spawner_calls := [False, False]\<rparr>)"
  using provide_client_reuses_cached_connection
    [OF provide_client_first, of dialed_once] provide_client_first
  by (simp add: steady_spawner_def unresolved_client_def dialed_once_def sample_world_def)

text \<open>
  Claim C5 as stated fails: with a spawner whose second call raises, the first call of
  the provider returns a client and the second, made right after it, calls the spawner a
  second time and raises instead of returning the cached connection.
\<close>

theorem provide_client_calls_spawner_again_counterexample:
  "provide_client flaky_spawner unresolved_client sample_world =
     (Inr daemon_client, connected_client, dialed_once) \<and>
   provide_client flaky_spawner connected_client dialed_once =
     (Inl (OtherError ''daemon did not start''), connected_client,
      dialed_once\<lparr>spawner_calls := [False, False]\<rparr>)"
  by (simp add: provide_client_def provide_client_resume_def new_channel_def Let_def
        flaky_spawner_def unresolved_client_def sample_world_def daemon_client_def
        connected_client_def dialed_once_def)

text \<open>
  Claim C6: when the companion lookup raises the domain exception, the constructor
  raises nothing. It returns a facade, having logged the exception through the
  facade's logger; every call of the registry is installed (each name bound to the last
  callable registered under it); the direct stub is unset; and the daemon provider
  works on the new facade: whenever the spawner call returns, it yields a client on a
  fresh channel to the facade's host and port.
\<close>

theorem construction_survives_failed_resolution:
  assumes "get_companion_info udid = Inl (IdbException a c)"
  shows "\<exists>self. GrpcClient_init client_calls get_companion_info p h udid lg force w =
           (Inr self, w\<lparr>logged := logged w @ [Info_exception (logger self) (IdbException a c)]\<rparr>) \<and>
         installed self = map_of (rev client_calls) \<and>
         stub self = None \<and>
         (\<forall>spawner w'. spawner (spawner_calls w' @ [force]) = None \<longrightarrow>
            fst (provide_client spawner self w') =
              Inr \<lparr>cc_stub = CompanionServiceStub (Channel h p (length (dialed w'))),
                   cc_is_local = True, cc_udid = udid, cc_logger = logger self\<rparr>)"
  using assms
  by (simp add: init_failed_resolution install_calls_map_of provide_client_def
        provide_client_resume_def new_channel_def Let_def)

theorem construction_survives_failed_resolution_witness:
  "GrpcClient_init [(''screenshot'', quiet_call)] no_companion 9888 ''localhost''
      (Some ''SIM-9'') None False sample_world =
     (Inr unresolved_client,
      sample_world\<lparr>logged := [Info_exception (Logger ''idb_grpc_client'')
         (IdbException (Message (Some ''no companion for the target'')) None)]\<rparr>) \<and>
   installed unresolved_client ''screenshot'' = Some quiet_call \<and>
   stub unresolved_client = None \<and>
   fst (provide_client steady_spawner unresolved_client sample_world) = Inr daemon_client"
  using construction_survives_failed_resolution
    [where get_companion_info = no_companion and udid = "Some ''SIM-9''"
       and a = "Message (Some ''no companion for the target'')" and c = None
       and client_calls = "[(''screenshot'', quiet_call)]" and p = 9888 and h = "''localhost''"
       and lg = None and force = False and w = sample_world]
    unresolved_client_constructed provide_client_first
  by (simp add: no_companion_def unresolved_client_def)

text \<open>
  Claim C7, as amended: on a facade whose companion lookup failed at construction, each
  call routed to the companion directly (\<^verbatim>\<open>list_apps\<close>, \<^verbatim>\<open>accessibility_info\<close>,
  \<^verbatim>\<open>add_media\<close>, \<^verbatim>\<open>approve\<close>) fails, in any later world and on any transport, with
  \<open>AttributeError\<close> for the attribute looked up on the unset stub, after the call-boundary
  event is logged and before anything reaches the transport. The error is not the
  domain exception, and the wrapper lets it through as it is.
\<close>

theorem direct_calls_after_failed_resolution:
  assumes "get_companion_info udid = Inl (IdbException a c)"
  shows "\<exists>self w1. GrpcClient_init cc get_companion_info p h udid lg force w0 = (Inr self, w1) \<and>
      call_await (list_apps T aps) self w =
        (Inl (AttributeError ''list_apps''), w\<lparr>logged := logged w @ [Call_boundary ''list_apps'']\<rparr>) \<and>
      call_await (accessibility_info T) (self, point) w =
        (Inl (AttributeError ''accessibility_info''),
         w\<lparr>logged := logged w @ [Call_boundary ''accessibility_info'']\<rparr>) \<and>
      call_await (add_media T generate_tar) (self, file_paths) w =
        (Inl (AttributeError ''add_media''), w\<lparr>logged := logged w @ [Call_boundary ''add_media'']\<rparr>) \<and>
      call_await (approve T) (self, bundle_id, permissions) w =
        (Inl (AttributeError ''approve''), w\<lparr>logged := logged w @ [Call_boundary ''approve'']\<rparr>)"
  using assms by (simp add: init_failed_resolution direct_calls_without_stub)

theorem direct_calls_after_failed_resolution_witness:
  "GrpcClient_init [(''screenshot'', quiet_call)] no_companion 9888 ''localhost''
      (Some ''SIM-9'') None False sample_world =
     (Inr unresolved_client,
      sample_world\<lparr>logged := [Info_exception (Logger ''idb_grpc_client'')
         (IdbException (Message (Some ''no companion for the target'')) None)]\<rparr>) \<and>
   call_await (add_media quiet_transport two_chunks) (unresolved_client, [''a.png'']) sample_world =
     (Inl (AttributeError ''add_media''), sample_world\<lparr>logged := [Call_boundary ''add_media'']\<rparr>) \<and>
   call_await (approve quiet_transport) (unresolved_client, ''com.example.app'', [''photos''])
      sample_world =
     (Inl (AttributeError ''approve''), sample_world\<lparr>logged := [Call_boundary ''approve'']\<rparr>)"
  using direct_calls_after_failed_resolution
    [where get_companion_info = no_companion and udid = "Some ''SIM-9''"
       and a = "Message (Some ''no companion for the target'')" and c = None
       and aps = Inr and point = None
       and cc = "[(''screenshot'', quiet_call)]" and p = 9888 and h = "''localhost''"
       and lg = None and force = False and ?w0.0 = sample_world and T = quiet_transport
       and w = sample_world and generate_tar = two_chunks and file_paths = "[''a.png'']"
       and bundle_id = "''com.example.app''" and permissions = "[''photos'']"]
    unresolved_client_constructed
  by (simp add: no_companion_def sample_world_def)

text \<open>
  Claim C7 as stated fails: the facade built after a failed lookup answers
  \<^verbatim>\<open>list_apps\<close> with \<open>AttributeError\<close>, which is not the domain exception.
\<close>

theorem direct_call_after_failed_resolution_counterexample:
  "fst (GrpcClient_init [(''screenshot'', quiet_call)] no_companion 9888 ''localhost''
          (Some ''SIM-9'') None False sample_world) = Inr unresolved_client \<and>
   fst (call_await (list_apps quiet_transport Inr) unresolved_client sample_world)
     = Inl (AttributeError ''list_apps'') \<and>
   \<not> is_IdbException (AttributeError ''list_apps'')"
  by (simp add: GrpcClient_init_def no_companion_def unresolved_client_def Let_def
        await_decorated list_apps_def list_apps_body_def io_raise_def)

text \<open>
  Claim C8, as amended: when the requested permissions hold a name outside the three
  keys of \<^verbatim>\<open>APPROVE_MAP\<close>, \<^verbatim>\<open>approve\<close> fails before anything reaches the transport:
  the world changes by the call-boundary event only, so no message is sent and the
  remote operation is not invoked. The exception is \<open>KeyError\<close> with the first such name
  in iteration order (\<open>AttributeError\<close> when the direct stub is unset, which is looked
  up first); it is not the domain exception, and the wrapper lets it through as it is.
\<close>

theorem approve_unknown_permission_fails_before_network:
  assumes "p \<in> set permissions" and "p \<notin> {''photos'', ''camera'', ''contacts''}"
  shows "\<exists>q. find (\<lambda>p. APPROVE_MAP p = None) permissions = Some q \<and>
           call_await (approve T) (self, bundle_id, permissions) w =
             (Inl (case stub self of None \<Rightarrow> AttributeError ''approve'' | Some st \<Rightarrow> KeyError q),
              w\<lparr>logged := logged w @ [Call_boundary ''approve'']\<rparr>)"
proof -
  from assms(2) have "APPROVE_MAP p = None"
    using APPROVE_MAP_dom by blast
  with assms(1) obtain q where q: "find (\<lambda>p. APPROVE_MAP p = None) permissions = Some q"
    using find_unknown_permission by blast
  then have "lookup_permissions permissions = Inl (KeyError q)"
    by (rule lookup_permissions_unknown)
  then have "call_await (approve T) (self, bundle_id, permissions) w =
             (Inl (case stub self of None \<Rightarrow> AttributeError ''approve'' | Some st \<Rightarrow> KeyError q),
              w\<lparr>logged := logged w @ [Call_boundary ''approve'']\<rparr>)"
    by (simp add: await_decorated approve_def approve_body_def io_raise_def split: option.splits)
  with q show ?thesis by blast
qed

theorem approve_unknown_permission_fails_before_network_witness:
  "''microphone'' \<in> set [''photos'', ''microphone''] \<and>
   find (\<lambda>p. APPROVE_MAP p = None) [''photos'', ''microphone''] = Some ''microphone'' \<and>
   call_await (approve quiet_transport)
      (resolved_client True, ''com.example.app'', [''photos'', ''microphone'']) sample_world =
     (Inl (KeyError ''microphone''), sample_world\<lparr>logged := [Call_boundary ''approve'']\<rparr>)"
  using approve_unknown_permission_fails_before_network
    [where p = "''microphone''" and permissions = "[''photos'', ''microphone'']"
       and T = quiet_transport and self = "resolved_client True"
       and bundle_id = "''com.example.app''" and w = sample_world]
  by (simp add: APPROVE_MAP_def resolved_client_def sample_world_def)

text \<open>
  Claim C8 as stated fails in one part: the call does fail before the transport is
  touched, but with \<open>KeyError\<close>, which is not the domain exception.
\<close>

theorem approve_unknown_permission_counterexample:
  "call_await (approve quiet_transport)
      (resolved_client True, ''com.example.app'', [''photos'', ''microphone'']) sample_world =
     (Inl (KeyError ''microphone''), sample_world\<lparr>logged := [Call_boundary ''approve'']\<rparr>) \<and>
   \<not> is_IdbException (KeyError ''microphone'')"
  by (simp add: await_decorated approve_def approve_body_def io_raise_def resolved_client_def
        APPROVE_MAP_def sample_world_def)

text \<open>
  Claim C9, as amended: \<open>n\<close> callers of \<^verbatim>\<open>provide_client\<close> share a facade that has no
  daemon connection yet, on one event loop, interleaved in any way at the awaited
  spawner call. After any schedule, what each caller holds is decided by its own spawner
  call: a caller whose call returned holds the client on the first channel, the same
  client for all of them; a caller whose call raised holds that exception; the others
  are still waiting or have not started. The spawner has been called once for each
  caller that has started, with the facade's flag, so \<open>n\<close> times when all have: nothing
  in the provider makes the callers share one call. One channel has been constructed, to
  the facade's host and port, if the spawner call of some caller has returned, and none
  otherwise.
\<close>

theorem concurrent_first_callers:
  fixes self :: "'f GrpcClient" and schedule :: "step list" and n :: nat and w :: world
  assumes "daemon_channel self = None" and "daemon_stub self = None"
  defines "s \<equiv> run schedule (callers n self w)"
  shows "tasks s =
           map (\<lambda>i. result_of (first_handle self w) (own_spawner_call i Not_called schedule)) [0..<n] \<and>
         spawner_calls (outside s) =
           spawner_calls w @
           replicate (length (filter (\<lambda>i. own_spawner_call i Not_called schedule \<noteq> Not_called) [0..<n]))
             (force_kill_daemon self) \<and>
         ((\<forall>i<n. own_spawner_call i Not_called schedule \<noteq> Not_called) \<longrightarrow>
            length (spawner_calls (outside s)) = length (spawner_calls w) + n) \<and>
         dialed (outside s) =
           (if \<exists>i<n. own_spawner_call i Not_called schedule = Returned
            then dialed w @ [(host self, port self)] else dialed w)"
proof -
  let ?calls = "\<lambda>i. own_spawner_call i Not_called schedule"
  have inv: "callers_invariant self w n ?calls s"
    unfolding s_def
    using callers_invariant_run [OF assms(1,2) callers_invariant_initial] .
  then have tasks_eq: "tasks s = map (\<lambda>i. result_of (first_handle self w) (?calls i)) [0..<n]"
    by (intro nth_equalityI) (simp_all add: callers_invariant_def)
  have "filter started (tasks s) =
          map (\<lambda>i. result_of (first_handle self w) (?calls i))
            (filter (\<lambda>i. ?calls i \<noteq> Not_called) [0..<n])"
    unfolding tasks_eq by (simp add: filter_map comp_def)
  then have count: "length (filter started (tasks s)) =
                      length (filter (\<lambda>i. ?calls i \<noteq> Not_called) [0..<n])"
    by simp
  from inv have "spawner_calls (outside s) =
       spawner_calls w @ replicate (length (filter started (tasks s))) (force_kill_daemon self)"
    by (simp add: callers_invariant_def)
  moreover from inv have "dialed (outside s) =
           (if \<exists>i<n. ?calls i = Returned
            then dialed w @ [(host self, port self)] else dialed w)"
    by (auto simp: callers_invariant_def split: if_splits)
  moreover have "length (filter (\<lambda>i. ?calls i \<noteq> Not_called) [0..<n]) = n"
    if "\<forall>i<n. ?calls i \<noteq> Not_called"
    using that by simp
  ultimately show ?thesis
    using tasks_eq count by simp
qed

theorem concurrent_first_callers_witness:
  "daemon_channel unresolved_client = None \<and> daemon_stub unresolved_client = None \<and>
   tasks (run [Start 1, Start 0, Resume 1 (Some (OtherError ''daemon did not start'')), Resume 0 None]
       (callers 2 unresolved_client sample_world)) =
     [Finished (Inr daemon_client), Finished (Inl (OtherError ''daemon did not start''))] \<and>
   spawner_calls (outside (run
       [Start 1, Start 0, Resume 1 (Some (OtherError ''daemon did not start'')), Resume 0 None]
       (callers 2 unresolved_client sample_world))) = [False, False] \<and>
   dialed (outside (run
       [Start 1, Start 0, Resume 1 (Some (OtherError ''daemon did not start'')), Resume 0 None]
       (callers 2 unresolved_client sample_world))) = [(''localhost'', 9888)]"
proof -
  let ?schedule = "[Start 1, Start 0, Resume 1 (Some (OtherError ''daemon did not start'')),
                    Resume 0 None]"
  have unset: "daemon_channel unresolved_client = None" "daemon_stub unresolved_client = None"
    by (simp_all add: unresolved_client_def)
  have upto: "[0..<2] = [0, Suc 0]"
    by (simp add: numeral_2_eq_2)
  have c0: "own_spawner_call 0 Not_called ?schedule = Returned"
    by simp
  have c1: "own_spawner_call (Suc 0) Not_called ?schedule = Raised (OtherError ''daemon did not start'')"
    by simp
  have some: "\<exists>i<2. own_spawner_call i Not_called ?schedule = Returned"
    using c0 by (intro exI [of _ 0]) simp
  have handle: "first_handle unresolved_client sample_world = daemon_client"
    by (simp add: first_handle_def handle_of_def unresolved_client_def sample_world_def
          daemon_client_def)
  note fact = concurrent_first_callers [OF unset, where n = 2 and w = sample_world
      and schedule = ?schedule]
  have t: "tasks (run ?schedule (callers 2 unresolved_client sample_world)) =
     [Finished (Inr daemon_client), Finished (Inl (OtherError ''daemon did not start''))]"
    using fact [THEN conjunct1] by (simp only: upto list.map c0 c1 handle result_of.simps)
  have sc: "spawner_calls (outside (run ?schedule (callers 2 unresolved_client sample_world))) =
     [False, False]"
    using fact [THEN conjunct2, THEN conjunct1]
    by (simp add: upto c0 c1 unresolved_client_def sample_world_def)
  have d: "dialed (outside (run ?schedule (callers 2 unresolved_client sample_world))) =
     [(''localhost'', 9888)]"
    using fact [THEN conjunct2, THEN conjunct2, THEN conjunct2] some
    by (simp add: unresolved_client_def sample_world_def)
  from unset t sc d show ?thesis by (simp only: simp_thms)
qed

text \<open>
  Claim C9 as stated fails: two callers, both started before either resumes. The
  spawner is called twice, not once; and when the second caller's spawner call raises
  while the first one's returns, one caller receives the client and the other the
  exception.
\<close>

theorem concurrent_first_callers_counterexample:
  "run [Start 0, Start 1, Resume 0 None, Resume 1 None] (callers 2 unresolved_client sample_world) =
     \<lparr>tasks = [Finished (Inr daemon_client), Finished (Inr daemon_client)],
      client = connected_client,
      outside = sample_world\<lparr>dialed := [(''localhost'', 9888)], spawner_calls := [False, False]\<rparr>\<rparr> \<and>
   tasks (run [Start 0, Start 1, Resume 0 None, Resume 1 (Some (OtherError ''daemon did not start''))]
            (callers 2 unresolved_client sample_world)) =
     [Finished (Inr daemon_client), Finished (Inl (OtherError ''daemon did not start''))]"
  by (simp add: callers_def provide_client_resume_def new_channel_def unresolved_client_def
        sample_world_def daemon_client_def connected_client_def numeral_2_eq_2)

text \<open>
  Claim C10: \<^verbatim>\<open>metadata\<close> returns the one-entry map from \<open>udid\<close> to the target
  identifier when that is a non-empty string, and the empty map when it is the empty
  string or \<^verbatim>\<open>None\<close>. It is a function of the facade alone whose result is a plain
  map: it has no way to fail and nothing to write to.
\<close>

theorem metadata_udid_or_empty:
  "(\<forall>u. target_udid self = Some u \<and> u \<noteq> [] \<longrightarrow> metadata self = [''udid'' \<mapsto> u]) \<and>
   (target_udid self = Some [] \<longrightarrow> metadata self = Map.empty) \<and>
   (target_udid self = None \<longrightarrow> metadata self = Map.empty)"
  by (simp add: metadata_def)

theorem metadata_udid_or_empty_witness:
  "metadata (resolved_client True) = [''udid'' \<mapsto> ''SIM-1''] \<and>
   metadata ((resolved_client True)\<lparr>target_udid := Some []\<rparr>) = Map.empty \<and>
   metadata ((resolved_client True)\<lparr>target_udid := None\<rparr>) = Map.empty"
  using metadata_udid_or_empty [of "resolved_client True"]
    metadata_udid_or_empty [of "(resolved_client True)\<lparr>target_udid := Some []\<rparr>"]
    metadata_udid_or_empty [of "(resolved_client True)\<lparr>target_udid := None\<rparr>"]
  by (simp add: resolved_client_def)

end
